theory Spec2Isabelle
  imports Main "HOL-Library.Sublist"
begin

section \<open>JavaScript values used by the handlers\<close>

text \<open>
  Strings are character lists: the UTF-8 bytes of the JavaScript string, so that a
  character up to U+007F is one byte and any other character is several bytes, all of
  them above 0x7F. Searching for an ASCII text and matching a class of ASCII characters
  give the same result on the bytes as on the characters. A value that may be \<open>null\<close> or
  \<open>undefined\<close> is an option. In a condition, \<open>null\<close>, \<open>undefined\<close> and the empty string are
  falsy and every other string is truthy.
\<close>

definition truthy :: "string option \<Rightarrow> bool" where
  "truthy v = (case v of None \<Rightarrow> False | Some s \<Rightarrow> s \<noteq> [])"

text \<open>\<open>v || d\<close> on an optional string \<open>v\<close> and a string \<open>d\<close>.\<close>

definition or_else :: "string option \<Rightarrow> string \<Rightarrow> string" where
  "or_else v d = (case v of None \<Rightarrow> d | Some s \<Rightarrow> if s = [] then d else s)"

text \<open>\<open>s.startsWith(p)\<close> and \<open>s.includes(p)\<close> (\<open>includes\<close> is a keyword of Isabelle).\<close>

definition startsWith :: "string \<Rightarrow> string \<Rightarrow> bool" where
  "startsWith s p = prefix p s"

fun includes_str :: "string \<Rightarrow> string \<Rightarrow> bool" where
  "includes_str [] p = (p = [])"
| "includes_str (c # cs) p = (prefix p (c # cs) \<or> includes_str cs p)"

text \<open>
  \<open>s.toLowerCase()\<close> on the ASCII range: the letters \<open>A\<close> to \<open>Z\<close> (codes 65 to 90) move to
  \<open>a\<close> to \<open>z\<close>, every other character stays. The handlers compare the lowered text with
  entries of \<open>mimeToExtension\<close> only, which are ASCII letters and digits without a \<open>k\<close>; a
  text with a letter outside ASCII differs from them before and after lowering.
\<close>

definition lower_char :: "char \<Rightarrow> char" where
  "lower_char c =
     (let n = (of_char c :: nat) in if 65 \<le> n \<and> n \<le> 90 then char_of (n + 32) else c)"

definition toLowerCase :: "string \<Rightarrow> string" where
  "toLowerCase s = map lower_char s"

section \<open>The Content-Type Resolver (\<open>getProperFilename\<close>)\<close>

text \<open>The table \<open>mimeToExtension\<close> of the download route, in the order of the source.\<close>

definition mimeToExtension_table :: "(string \<times> string) list" where
  "mimeToExtension_table =
    [(''application/pdf'', ''pdf''),
     (''application/vnd.openxmlformats-officedocument.wordprocessingml.document'', ''docx''),
     (''application/msword'', ''doc''),
     (''application/vnd.oasis.opendocument.text'', ''odt''),
     (''application/rtf'', ''rtf''),
     (''text/plain'', ''txt''),
     (''text/html'', ''html''),
     (''text/css'', ''css''),
     (''text/javascript'', ''js''),
     (''text/markdown'', ''md''),
     (''application/vnd.openxmlformats-officedocument.spreadsheetml.sheet'', ''xlsx''),
     (''application/vnd.ms-excel'', ''xls''),
     (''application/vnd.oasis.opendocument.spreadsheet'', ''ods''),
     (''text/csv'', ''csv''),
     (''text/tab-separated-values'', ''tsv''),
     (''application/vnd.openxmlformats-officedocument.presentationml.presentation'', ''pptx''),
     (''application/vnd.ms-powerpoint'', ''ppt''),
     (''application/vnd.oasis.opendocument.presentation'', ''odp''),
     (''image/jpeg'', ''jpg''),
     (''image/png'', ''png''),
     (''image/gif'', ''gif''),
     (''image/bmp'', ''bmp''),
     (''image/webp'', ''webp''),
     (''image/svg+xml'', ''svg''),
     (''image/tiff'', ''tiff''),
     (''audio/mpeg'', ''mp3''),
     (''audio/wav'', ''wav''),
     (''audio/ogg'', ''ogg''),
     (''audio/flac'', ''flac''),
     (''audio/aac'', ''aac''),
     (''video/mp4'', ''mp4''),
     (''video/mpeg'', ''mpeg''),
     (''video/webm'', ''webm''),
     (''video/quicktime'', ''mov''),
     (''video/x-msvideo'', ''avi''),
     (''application/zip'', ''zip''),
     (''application/x-zip-compressed'', ''zip''),
     (''application/x-rar-compressed'', ''rar''),
     (''application/x-tar'', ''tar''),
     (''application/x-7z-compressed'', ''7z''),
     (''application/gzip'', ''gz''),
     (''application/vnd.google-apps.document'', ''docx''),
     (''application/vnd.google-apps.spreadsheet'', ''xlsx''),
     (''application/vnd.google-apps.presentation'', ''pptx''),
     (''application/vnd.google-apps.drawing'', ''png''),
     (''application/vnd.google-apps.form'', ''html''),
     (''application/vnd.google-apps.script'', ''json'')]"

text \<open>The entries of the object literal \<open>mimeToExtension\<close> itself.\<close>

definition mimeToExtension :: "string \<Rightarrow> string option" where
  "mimeToExtension = map_of mimeToExtension_table"

text \<open>
  Reading \<open>table[key]\<close> from an object literal finds an entry of the literal or, when the
  literal has none for the key, a member that every object inherits from
  \<open>Object.prototype\<close>; any other key gives \<open>undefined\<close>. The inherited members are
  functions, and \<open>__proto__\<close> is the prototype object; all of them are truthy, none is equal
  to a string, and \<open>inherited_members\<close> gives the text each turns into where a string is
  needed (in a template literal or a header value).
\<close>

definition inherited_members :: "(string \<times> string) list" where
  "inherited_members =
    [(''constructor'', ''function Object() { [native code] }''),
     (''__defineGetter__'', ''function __defineGetter__() { [native code] }''),
     (''__defineSetter__'', ''function __defineSetter__() { [native code] }''),
     (''hasOwnProperty'', ''function hasOwnProperty() { [native code] }''),
     (''__lookupGetter__'', ''function __lookupGetter__() { [native code] }''),
     (''__lookupSetter__'', ''function __lookupSetter__() { [native code] }''),
     (''isPrototypeOf'', ''function isPrototypeOf() { [native code] }''),
     (''propertyIsEnumerable'', ''function propertyIsEnumerable() { [native code] }''),
     (''toString'', ''function toString() { [native code] }''),
     (''valueOf'', ''function valueOf() { [native code] }''),
     (''__proto__'', ''[object Object]''),
     (''toLocaleString'', ''function toLocaleString() { [native code] }'')]"

datatype member = Own string | Inherited string | Undefined

definition member_at :: "(string \<Rightarrow> string option) \<Rightarrow> string \<Rightarrow> member" where
  "member_at entries key =
     (case entries key of
        Some v \<Rightarrow> Own v
      | None \<Rightarrow> (case map_of inherited_members key of Some t \<Rightarrow> Inherited t | None \<Rightarrow> Undefined))"

text \<open>The member in a condition, as a text, and in \<open>member || d\<close> where a text is needed.\<close>

definition member_truthy :: "member \<Rightarrow> bool" where
  "member_truthy m = (case m of Own v \<Rightarrow> v \<noteq> [] | Inherited t \<Rightarrow> True | Undefined \<Rightarrow> False)"

definition member_text :: "member \<Rightarrow> string" where
  "member_text m = (case m of Own v \<Rightarrow> v | Inherited t \<Rightarrow> t | Undefined \<Rightarrow> ''undefined'')"

definition member_or :: "member \<Rightarrow> string \<Rightarrow> string" where
  "member_or m d = (if member_truthy m then member_text m else d)"

text \<open>
  The two regular expressions of \<open>getProperFilename\<close> are anchored at the end of the
  string: \<open>/\.([^.]+)$/\<close> and \<open>/\.[^/.]+$/\<close>. \<open>match_ext ok s\<close> searches from the left for
  the first position holding a dot followed, up to the end of the string, by one or more
  characters of the class \<open>ok\<close>, and returns those characters (the text after the dot).
\<close>

fun match_ext :: "(char \<Rightarrow> bool) \<Rightarrow> string \<Rightarrow> string option" where
  "match_ext ok [] = None"
| "match_ext ok (c # cs) =
     (if c = CHR ''.'' \<and> cs \<noteq> [] \<and> list_all ok cs then Some cs else match_ext ok cs)"

text \<open>\<open>[^.]\<close> and \<open>[^/.]\<close>.\<close>

definition not_dot :: "char \<Rightarrow> bool" where
  "not_dot c = (c \<noteq> CHR ''.'')"

definition not_slash_dot :: "char \<Rightarrow> bool" where
  "not_slash_dot c = (c \<noteq> CHR ''/'' \<and> c \<noteq> CHR ''.'')"

text \<open>\<open>baseName.replace(/\.[^/.]+$/, "")\<close>: the match, when there is one, runs to the end.\<close>

definition removeExtension :: "string \<Rightarrow> string" where
  "removeExtension s =
     (case match_ext not_slash_dot s of
        None \<Rightarrow> s
      | Some e \<Rightarrow> take (length s - (length e + 1)) s)"

definition getProperFilename :: "string \<Rightarrow> string \<Rightarrow> string option \<Rightarrow> string" where
  "getProperFilename baseName contentType specifiedFormat =
     (if truthy specifiedFormat then
        removeExtension baseName @ ''.'' @ the specifiedFormat
      else
        (case match_ext not_dot baseName of
           Some ext \<Rightarrow>
             (let existingExt = toLowerCase ext;
                  expectedExt = member_at mimeToExtension contentType
              in if member_truthy expectedExt \<and> Own existingExt = expectedExt then baseName
                 else if member_truthy expectedExt then
                   removeExtension baseName @ ''.'' @ member_text expectedExt
                 else baseName)
         | None \<Rightarrow>
             baseName @ ''.'' @ member_or (member_at mimeToExtension contentType) ''bin''))"

section \<open>The Identifier Extractors\<close>

text \<open>
  \<open>url.match(pattern)\<close> with a pattern that is not anchored tries the pattern at every
  position of the string from the left and stops at the first position where it matches.
  \<open>search at s\<close> does that for a matcher \<open>at\<close> that says what the pattern captures when
  it matches at the start of its argument.
\<close>

fun search :: "(string \<Rightarrow> string option) \<Rightarrow> string \<Rightarrow> string option" where
  "search at [] = at []"
| "search at (c # cs) = (case at (c # cs) of Some m \<Rightarrow> Some m | None \<Rightarrow> search at cs)"

text \<open>
  A pattern made of a literal followed by a group \<open>([^...]+)\<close>: the literal must be a
  prefix, and the group is greedy, so it takes the longest run of characters of its class,
  which must not be empty.
\<close>

definition capture_at :: "string \<Rightarrow> (char \<Rightarrow> bool) \<Rightarrow> string \<Rightarrow> string option" where
  "capture_at lit ok s =
     (if prefix lit s then
        (let cap = takeWhile ok (drop (length lit) s) in if cap = [] then None else Some cap)
      else None)"

text \<open>The classes \<open>[^\/\?]\<close>, \<open>[^&]\<close> and \<open>\w\<close> (letters, digits and the underscore).\<close>

definition not_slash_question :: "char \<Rightarrow> bool" where
  "not_slash_question c = (c \<noteq> CHR ''/'' \<and> c \<noteq> CHR ''?'')"

definition not_amp :: "char \<Rightarrow> bool" where
  "not_amp c = (c \<noteq> CHR ''&'')"

definition word_char :: "char \<Rightarrow> bool" where
  "word_char c =
     (let n = (of_char c :: nat)
      in (48 \<le> n \<and> n \<le> 57) \<or> (65 \<le> n \<and> n \<le> 90) \<or> (97 \<le> n \<and> n \<le> 122) \<or> n = 95)"

text \<open>
  \<open>/docs\.google\.com\/\w+\/d\/([^\/\?]+)/\<close> at one position. After the host, \<open>\w+\<close> takes
  the longest run of word characters; a shorter run would be followed by a word character
  and not by the slash the pattern asks for, so no other split can match.
\<close>

definition docs_at :: "string \<Rightarrow> string option" where
  "docs_at s =
     (if prefix ''docs.google.com/'' s then
        (let r = drop (length ''docs.google.com/'') s
         in if takeWhile word_char r = [] then None
            else capture_at ''/d/'' not_slash_question (dropWhile word_char r))
      else None)"

text \<open>The four patterns that both extractors share, and the two more of \<open>extractFileId\<close>.\<close>

definition file_d_pattern :: "string \<Rightarrow> string option" where
  "file_d_pattern = search (capture_at ''drive.google.com/file/d/'' not_slash_question)"

definition open_id_pattern :: "string \<Rightarrow> string option" where
  "open_id_pattern = search (capture_at ''drive.google.com/open?id='' not_amp)"

definition docs_pattern :: "string \<Rightarrow> string option" where
  "docs_pattern = search docs_at"

definition uc_id_pattern :: "string \<Rightarrow> string option" where
  "uc_id_pattern = search (capture_at ''drive.google.com/uc?id='' not_amp)"

definition spreadsheets_pattern :: "string \<Rightarrow> string option" where
  "spreadsheets_pattern = search (capture_at ''docs.google.com/spreadsheets/d/'' not_slash_question)"

definition presentation_pattern :: "string \<Rightarrow> string option" where
  "presentation_pattern = search (capture_at ''docs.google.com/presentation/d/'' not_slash_question)"

text \<open>
  The loop over the patterns: the first pattern that matches with a truthy group decides.
\<close>

fun first_match :: "(string \<Rightarrow> string option) list \<Rightarrow> string \<Rightarrow> string option" where
  "first_match [] url = None"
| "first_match (p # ps) url =
     (case p url of
        Some m \<Rightarrow> if m \<noteq> [] then Some m else first_match ps url
      | None \<Rightarrow> first_match ps url)"

definition extractFileId :: "string \<Rightarrow> string option" where
  "extractFileId url =
     first_match [file_d_pattern, open_id_pattern, docs_pattern, uc_id_pattern,
                  spreadsheets_pattern, presentation_pattern] url"

definition extractGoogleDriveFileId :: "string \<Rightarrow> string option" where
  "extractGoogleDriveFileId url =
     first_match [file_d_pattern, open_id_pattern, docs_pattern, uc_id_pattern] url"











section \<open>Upstream replies and \<open>axios.get\<close>\<close>

text \<open>
  The payload of a reply is a sequence of bytes (\<open>responseType: "arraybuffer"\<close>), and
  \<open>data.byteLength\<close> is its length. The buffer is an object, so \<open>response.data\<close> is truthy
  in a condition, also when it holds no byte.
\<close>

type_synonym payload = string

definition byteLength :: "payload \<Rightarrow> nat" where
  "byteLength d = length d"

definition data_truthy :: "payload \<Rightarrow> bool" where
  "data_truthy d = True"

text \<open>
  What a handler reads from a reply: the status code, the \<open>content-type\<close> header when
  there is one, and the data.
\<close>

record 'd reply =
  status :: nat
  content_type :: "string option"
  data :: 'd

text \<open>
  A call of the upstream either fails in transport (network failure, too many redirects)
  or comes back with a reply.
\<close>

datatype 'd upstream = NetworkFailure string | Reply "'d reply"

text \<open>
  The exceptions of the handlers: the two rejections of \<open>axios.get\<close>, and the \<open>TypeError\<close>
  of \<open>new Response\<close> for a header value it refuses.
\<close>

datatype error = TransportError string | StatusError nat | InvalidHeaderValue string

text \<open>
  \<open>axios.get(url, {validateStatus})\<close>: the promise rejects on a transport failure and on a
  status that \<open>validateStatus\<close> refuses; the rejection is an exception at the \<open>await\<close>.
\<close>

definition axios_get :: "(nat \<Rightarrow> bool) \<Rightarrow> 'd upstream \<Rightarrow> error + 'd reply" where
  "axios_get validateStatus u =
     (case u of
        NetworkFailure m \<Rightarrow> Inl (TransportError m)
      | Reply r \<Rightarrow> if validateStatus (status r) then Inr r else Inl (StatusError (status r)))"

section \<open>The download route\<close>

text \<open>The query parameters, as \<open>searchParams.get\<close> returns them.\<close>

record request =
  fileId :: "string option"
  format :: "string option"
  forcePdf_param :: "string option"
  viewOnly_param :: "string option"

text \<open>
  The fields \<open>name\<close> and \<open>mimeType\<close> of the metadata reply's data: strings, as the Drive
  API gives them, or absent.
\<close>

record metadata =
  meta_name :: "string option"
  meta_mimeType :: "string option"

text \<open>
  What the upstream answers to each call the route can make for one request:
  \<^item> \<open>metadata_call\<close>: \<open>googleapis.com/drive/v3/files/{fileId}?fields=name,mimeType\<close>;
  \<^item> \<open>print_call\<close>: \<open>drive.google.com/uc?id={fileId}&export=download&format=pdf\<close>;
  \<^item> \<open>embed_call\<close>: \<open>drive.google.com/file/d/{fileId}/preview\<close>;
  \<^item> \<open>export_call f\<close>: \<open>docs.google.com/export/download?id={fileId}&exportFormat=f\<close>;
  \<^item> \<open>download_call\<close>: \<open>drive.google.com/uc?id={fileId}&export=download&confirm=t\<close>;
  \<^item> \<open>alternative_call\<close>: \<open>drive.google.com/uc?export=download&id={fileId}\<close>;
  \<^item> \<open>direct_call\<close>: \<open>docs.google.com/uc?export=download&id={fileId}\<close>.
\<close>

record network =
  metadata_call :: "metadata upstream"
  print_call :: "payload upstream"
  embed_call :: "payload upstream"
  export_call :: "string \<Rightarrow> payload upstream"
  download_call :: "payload upstream"
  alternative_call :: "payload upstream"
  direct_call :: "payload upstream"

text \<open>
  The \<open>Response\<close> a handler returns. The body of an error response is the JSON object
  \<open>{error, details}\<close>, where \<open>details\<close> is the message of the exception that was caught.
\<close>

datatype body = NoBody | Bytes payload | ErrorJson string "error option"

record response =
  rstatus :: nat
  rheaders :: "(string \<times> string) list"
  rbody :: body

text \<open>
  \<open>new Response(body, {status, headers})\<close> fills its headers one by one, in the order of
  the object literal. Each value is first turned into a byte string, which fails for a
  character above U+00FF: in UTF-8 such a character starts with a byte above 0xC3, while a
  character from U+0080 to U+00FF is a byte 0xC2 or 0xC3 and one continuation byte. Then
  the white space at both ends of the value is removed, and a value that still holds a
  NUL, a line feed or a carriage return is refused. A refusal is a \<open>TypeError\<close>.
\<close>

fun byte_string :: "string \<Rightarrow> bool" where
  "byte_string [] = True"
| "byte_string [c] = ((of_char c :: nat) < 128)"
| "byte_string (c # d # cs) =
     (if (of_char c :: nat) < 128 then byte_string (d # cs)
      else ((of_char c :: nat) = 194 \<or> (of_char c :: nat) = 195) \<and>
           128 \<le> (of_char d :: nat) \<and> (of_char d :: nat) < 192 \<and> byte_string cs)"

definition http_whitespace :: "char \<Rightarrow> bool" where
  "http_whitespace c = (c = CHR 0x09 \<or> c = CHR 0x0A \<or> c = CHR 0x0D \<or> c = CHR 0x20)"

definition normalizeValue :: "string \<Rightarrow> string" where
  "normalizeValue v = rev (dropWhile http_whitespace (rev (dropWhile http_whitespace v)))"

definition validHeaderValue :: "string \<Rightarrow> bool" where
  "validHeaderValue v =
     (byte_string v \<and>
      list_all (\<lambda>c. c \<noteq> CHR 0x00 \<and> c \<noteq> CHR 0x0A \<and> c \<noteq> CHR 0x0D) (normalizeValue v))"

fun fillHeaders :: "(string \<times> string) list \<Rightarrow> error + (string \<times> string) list" where
  "fillHeaders [] = Inr []"
| "fillHeaders ((name, v) # hs) =
     (if validHeaderValue v then
        (case fillHeaders hs of
           Inl e \<Rightarrow> Inl e
         | Inr filled \<Rightarrow> Inr ((name, normalizeValue v) # filled))
      else Inl (InvalidHeaderValue v))"

definition new_Response :: "body \<Rightarrow> nat \<Rightarrow> (string \<times> string) list \<Rightarrow> error + response" where
  "new_Response b code hs =
     (case fillHeaders hs of
        Inl e \<Rightarrow> Inl e
      | Inr filled \<Rightarrow> Inr \<lparr>rstatus = code, rheaders = filled, rbody = b\<rparr>)"

text \<open>
  The three responses the theorems below speak of, as values: the file response with its
  two headers, the JSON error response, and the redirect to the viewer.
\<close>

definition file_response :: "payload \<Rightarrow> string \<Rightarrow> string \<Rightarrow> response" where
  "file_response d contentType finalFilename =
     \<lparr>rstatus = 200,
      rheaders = [(''Content-Type'', contentType),
                  (''Content-Disposition'',
                   ''attachment; filename='' @ [CHR 0x22] @ finalFilename @ [CHR 0x22])],
      rbody = Bytes d\<rparr>"

definition error_response :: "nat \<Rightarrow> string \<Rightarrow> error option \<Rightarrow> response" where
  "error_response code msg details =
     \<lparr>rstatus = code, rheaders = [(''Content-Type'', ''application/json'')],
      rbody = ErrorJson msg details\<rparr>"

definition viewer_redirect :: "string \<Rightarrow> response" where
  "viewer_redirect fid =
     \<lparr>rstatus = 302,
      rheaders = [(''Location'', ''https://drive.google.com/file/d/'' @ fid @ ''/view'')],
      rbody = NoBody\<rparr>"

text \<open>
  How a block of the handler ends: with a \<open>return\<close>, with an exception that leaves the
  block, or by reaching its end, where the next block starts.
\<close>

datatype flow = Returned response | Thrown error | Fallthrough

definition and_then :: "flow \<Rightarrow> flow \<Rightarrow> flow" where
  "and_then a b = (case a of Fallthrough \<Rightarrow> b | _ \<Rightarrow> a)"

text \<open>\<open>return new Response(...)\<close>: the statement returns, or the constructor throws.\<close>

definition returnResponse :: "body \<Rightarrow> nat \<Rightarrow> (string \<times> string) list \<Rightarrow> flow" where
  "returnResponse b code hs =
     (case new_Response b code hs of Inl e \<Rightarrow> Thrown e | Inr r \<Rightarrow> Returned r)"

text \<open>
  The file response that five places of the handler build in the same way: status 200, the
  content type, and the disposition header around the final filename.
\<close>

definition returnFile :: "payload \<Rightarrow> string \<Rightarrow> string \<Rightarrow> flow" where
  "returnFile d contentType finalFilename =
     returnResponse (Bytes d) 200
       [(''Content-Type'', contentType),
        (''Content-Disposition'',
         ''attachment; filename='' @ [CHR 0x22] @ finalFilename @ [CHR 0x22])]"

text \<open>A \<open>try\<close> block whose \<open>catch\<close> logs the exception and goes on after the block.\<close>

definition caught :: "flow \<Rightarrow> flow" where
  "caught a = (case a of Thrown e \<Rightarrow> Fallthrough | _ \<Rightarrow> a)"

text \<open>
  The metadata probe: an inner \<open>try\<close> whose \<open>catch\<close> keeps the defaults. Its
  \<open>validateStatus\<close> accepts every status below 500.
\<close>

definition probeMetadata :: "string \<Rightarrow> network \<Rightarrow> string \<times> string" where
  "probeMetadata fid net =
     (let fileName = ''file_'' @ fid; mimeType = ''application/octet-stream''
      in case axios_get (\<lambda>s. s < 500) (metadata_call net) of
           Inl e \<Rightarrow> (fileName, mimeType)
         | Inr metadataResponse \<Rightarrow>
             if status metadataResponse = 200 then
               (or_else (meta_name (data metadataResponse)) fileName,
                or_else (meta_mimeType (data metadataResponse)) mimeType)
             else (fileName, mimeType))"

text \<open>\<open>!headers["content-type"]?.includes("text/html")\<close>: true when the header is absent.\<close>

definition header_not_html :: "string option \<Rightarrow> bool" where
  "header_not_html h = (case h of None \<Rightarrow> True | Some ct \<Rightarrow> \<not> includes_str ct ''text/html'')"

text \<open>
  The block for view-only PDFs: both calls accept every status, and the \<open>catch\<close> of the
  block logs the exception, of a call or of \<open>new Response\<close>, and lets the handler go on.
\<close>

definition printAccepted :: "payload reply \<Rightarrow> bool" where
  "printAccepted printResponse =
     (status printResponse = 200 \<and> data_truthy (data printResponse) \<and>
      byteLength (data printResponse) > 1000 \<and>
      header_not_html (content_type printResponse))"

definition viewOnlyPdf :: "string \<Rightarrow> network \<Rightarrow> flow" where
  "viewOnlyPdf fileName net =
     caught
       (case axios_get (\<lambda>s. True) (print_call net) of
          Inl e \<Rightarrow> Thrown e
        | Inr printResponse \<Rightarrow>
            if printAccepted printResponse then
              returnFile (data printResponse) ''application/pdf''
                (getProperFilename fileName ''application/pdf'' (Some ''pdf''))
            else
              (case axios_get (\<lambda>s. True) (embed_call net) of
                 Inl e \<Rightarrow> Thrown e
               | Inr embedResponse \<Rightarrow>
                   if status embedResponse = 200 then
                     returnFile (data embedResponse) ''application/pdf''
                       (getProperFilename fileName ''application/pdf'' (Some ''pdf''))
                   else Fallthrough))"

text \<open>
  The block for Google Docs: the export format, the entries of the object literal
  \<open>contentTypeMap\<close>, the call.
\<close>

definition chooseExportFormat :: "string \<Rightarrow> string option \<Rightarrow> string" where
  "chooseExportFormat mimeType fmt =
     (let exportFormat = or_else fmt ''pdf''
      in if \<not> truthy fmt then
           (if mimeType = ''application/vnd.google-apps.spreadsheet'' then ''xlsx''
            else if mimeType = ''application/vnd.google-apps.presentation'' then ''pptx''
            else if mimeType = ''application/vnd.google-apps.document'' then ''docx''
            else exportFormat)
         else exportFormat)"

definition contentTypeMap :: "string \<Rightarrow> string option" where
  "contentTypeMap =
     map_of
       [(''pdf'', ''application/pdf''),
        (''docx'', ''application/vnd.openxmlformats-officedocument.wordprocessingml.document''),
        (''xlsx'', ''application/vnd.openxmlformats-officedocument.spreadsheetml.sheet''),
        (''pptx'', ''application/vnd.openxmlformats-officedocument.presentationml.presentation''),
        (''csv'', ''text/csv''),
        (''txt'', ''text/plain''),
        (''rtf'', ''application/rtf'')]"

definition googleDocs :: "string \<Rightarrow> string \<Rightarrow> string option \<Rightarrow> network \<Rightarrow> flow" where
  "googleDocs fileName mimeType fmt net =
     (let exportFormat = chooseExportFormat mimeType fmt
      in case axios_get (\<lambda>s. s = 200) (export_call net exportFormat) of
           Inl e \<Rightarrow> Thrown e
         | Inr exportResponse \<Rightarrow>
             if status exportResponse = 200 \<and> data_truthy (data exportResponse) then
               (let contentType =
                      member_or (member_at contentTypeMap exportFormat) ''application/octet-stream'';
                    finalFilename = getProperFilename fileName contentType (Some exportFormat)
                in returnFile (data exportResponse) contentType finalFilename)
             else Fallthrough)"

text \<open>The standard download, with its second try when the reply looks like an error page.\<close>

definition alternativeDownload :: "string \<Rightarrow> string \<Rightarrow> network \<Rightarrow> flow" where
  "alternativeDownload fileName mimeType net =
     (case axios_get (\<lambda>s. True) (alternative_call net) of
        Inl e \<Rightarrow> Thrown e
      | Inr altResponse \<Rightarrow>
          if status altResponse = 200 then
            (let altContentType = or_else (content_type altResponse) mimeType
             in if \<not> includes_str altContentType ''text/html'' \<or>
                   byteLength (data altResponse) > 1000000
                then returnFile (data altResponse) altContentType
                       (getProperFilename fileName altContentType None)
                else Fallthrough)
          else Fallthrough)"

definition standardDownload :: "string \<Rightarrow> string \<Rightarrow> network \<Rightarrow> flow" where
  "standardDownload fileName mimeType net =
     (case axios_get (\<lambda>s. s = 200 \<or> s = 303 \<or> s = 302) (download_call net) of
        Inl e \<Rightarrow> Thrown e
      | Inr fileResponse \<Rightarrow>
          if status fileResponse = 200 \<and> data_truthy (data fileResponse) then
            (let responseContentType = or_else (content_type fileResponse) mimeType
             in and_then
                  (if includes_str responseContentType ''text/html'' \<and>
                      byteLength (data fileResponse) < 1000000
                   then alternativeDownload fileName mimeType net
                   else Fallthrough)
                  (returnFile (data fileResponse) responseContentType
                     (getProperFilename fileName responseContentType None)))
          else Fallthrough)"

text \<open>The last download, from the other host.\<close>

definition directDownload :: "string \<Rightarrow> string \<Rightarrow> network \<Rightarrow> flow" where
  "directDownload fileName mimeType net =
     (case axios_get (\<lambda>s. s = 200) (direct_call net) of
        Inl e \<Rightarrow> Thrown e
      | Inr directResponse \<Rightarrow>
          if status directResponse = 200 \<and> data_truthy (data directResponse) then
            (let contentType = or_else (content_type directResponse) mimeType
             in returnFile (data directResponse) contentType
                  (getProperFilename fileName contentType None))
          else Fallthrough)"

text \<open>
  The body of the outer \<open>try\<close>, block after block, and the handler: the outer \<open>catch\<close>
  turns an exception into the response 500, and the end of the \<open>try\<close> is the redirect to
  the viewer.
\<close>

definition viewOnlyCondition :: "bool \<Rightarrow> bool \<Rightarrow> string \<Rightarrow> bool" where
  "viewOnlyCondition viewOnly forcePdf mimeType =
     ((viewOnly \<or> forcePdf) \<and> (includes_str mimeType ''pdf'' \<or> forcePdf))"

text \<open>What follows the block for view-only PDFs, down to the redirect.\<close>

definition laterStrategies ::
  "string \<Rightarrow> string \<Rightarrow> string \<Rightarrow> string option \<Rightarrow> network \<Rightarrow> flow" where
  "laterStrategies fid fileName mimeType fmt net =
     and_then
       (if startsWith mimeType ''application/vnd.google-apps''
        then googleDocs fileName mimeType fmt net
        else Fallthrough)
    (and_then (standardDownload fileName mimeType net)
    (and_then (directDownload fileName mimeType net)
       (returnResponse NoBody 302
          [(''Location'', ''https://drive.google.com/file/d/'' @ fid @ ''/view'')])))"

definition downloadChain :: "string \<Rightarrow> request \<Rightarrow> network \<Rightarrow> flow" where
  "downloadChain fid req net =
     (let forcePdf = (forcePdf_param req = Some ''true'');
          viewOnly = (viewOnly_param req = Some ''true'');
          (fileName, mimeType) = probeMetadata fid net
      in and_then
           (if viewOnlyCondition viewOnly forcePdf mimeType then viewOnlyPdf fileName net
            else Fallthrough)
           (laterStrategies fid fileName mimeType (format req) net))"

text \<open>
  The outer \<open>catch\<close>: what the handler answers when the body of its \<open>try\<close> ends as \<open>a\<close>.
  The body always returns or throws; the third case is there for totality only.
\<close>

definition outerCatch :: "string \<Rightarrow> flow \<Rightarrow> response" where
  "outerCatch fid a =
     (case a of
        Returned r \<Rightarrow> r
      | Thrown e \<Rightarrow> error_response 500 ''Failed to download file'' (Some e)
      | Fallthrough \<Rightarrow> viewer_redirect fid)"

definition GET :: "request \<Rightarrow> network \<Rightarrow> response" where
  "GET req net =
     (if \<not> truthy (fileId req) then error_response 400 ''File ID is required'' None
      else outerCatch (the (fileId req)) (downloadChain (the (fileId req)) req net))"

section \<open>The file-info route\<close>

text \<open>
  The fields the route reads from the data of the metadata reply; \<open>data_canDownload\<close> is
  \<open>data.capabilities?.canDownload\<close>.
\<close>

record file_data =
  data_name :: "string option"
  data_mimeType :: "string option"
  data_size :: "string option"
  data_canDownload :: "bool option"

text \<open>
  The calls of the route: the metadata of the file, and the view page
  \<open>drive.google.com/file/d/{fileId}/view\<close>, whose data is a string or something else.
\<close>

record info_network =
  info_call :: "file_data upstream"
  view_page_call :: "string option upstream"

text \<open>The JSON object of a successful answer; an absent key is \<open>None\<close>.\<close>

record file_info =
  info_id :: string
  info_name :: "string option"
  info_mimeType :: "string option"
  info_size :: "string option"
  isViewOnly :: "bool option"
  canDownload :: bool
  isGoogleApps :: "bool option"
  exportOptions :: "string list"

datatype info_response =
    InfoJson file_info
  | InfoError nat string "nat option"

text \<open>
  \<open>/<title>(.*?)<\/title>/\<close>: after the opening tag the group is lazy, so it ends at the
  first closing tag, and the dot does not match a line terminator: a line feed, a carriage
  return, or one of U+2028 and U+2029 (the bytes E2 80 A8 and E2 80 A9).
\<close>

definition line_terminator :: "string \<Rightarrow> bool" where
  "line_terminator s =
     (prefix [CHR 0x0A] s \<or> prefix [CHR 0x0D] s \<or>
      prefix [CHR 0xE2, CHR 0x80, CHR 0xA8] s \<or> prefix [CHR 0xE2, CHR 0x80, CHR 0xA9] s)"

fun title_text :: "string \<Rightarrow> string option" where
  "title_text [] = None"
| "title_text (c # cs) =
     (if prefix ''</title>'' (c # cs) then Some []
      else if line_terminator (c # cs) then None
      else map_option ((#) c) (title_text cs))"

definition title_at :: "string \<Rightarrow> string option" where
  "title_at s = (if prefix ''<title>'' s then title_text (drop (length ''<title>'') s) else None)"

text \<open>\<open>s.replace(pat, rep)\<close> with a string pattern: the first occurrence only.\<close>

fun replace_first :: "string \<Rightarrow> string \<Rightarrow> string \<Rightarrow> string" where
  "replace_first pat rep [] = (if pat = [] then rep else [])"
| "replace_first pat rep (c # cs) =
     (if prefix pat (c # cs) then rep @ drop (length pat) (c # cs)
      else c # replace_first pat rep cs)"

definition scrapeName :: "string \<Rightarrow> string option \<Rightarrow> string" where
  "scrapeName fid page =
     (case page of
        None \<Rightarrow> ''file_'' @ fid
      | Some html \<Rightarrow>
          if html = [] then ''file_'' @ fid
          else (case search title_at html of
                  None \<Rightarrow> ''file_'' @ fid
                | Some t \<Rightarrow> if t = [] then ''file_'' @ fid
                            else replace_first '' - Google Drive'' [] t))"

definition isProbablyPdf :: "string option \<Rightarrow> bool" where
  "isProbablyPdf page =
     (case page of
        None \<Rightarrow> False
      | Some html \<Rightarrow>
          html \<noteq> [] \<and> (includes_str html ''pdf.js'' \<or> includes_str html ''PDF viewer''))"

text \<open>The answer when the metadata call did not return 200: scraped from the view page.\<close>

definition fallbackInfo :: "string \<Rightarrow> nat \<Rightarrow> info_network \<Rightarrow> info_response" where
  "fallbackInfo fid upstreamStatus net =
     (case axios_get (\<lambda>s. True) (view_page_call net) of
        Inl e \<Rightarrow> InfoError 404 ''File not found or not accessible'' (Some upstreamStatus)
      | Inr fallbackResponse \<Rightarrow>
          InfoJson
            \<lparr>info_id = fid,
             info_name = Some (scrapeName fid (data fallbackResponse)),
             info_mimeType =
               Some (if isProbablyPdf (data fallbackResponse) then ''application/pdf''
                     else ''application/octet-stream''),
             info_size = None,
             isViewOnly = Some True,
             canDownload = False,
             isGoogleApps = Some False,
             exportOptions = (if isProbablyPdf (data fallbackResponse) then [''pdf''] else [])\<rparr>)"

text \<open>\<open>data.mimeType?.startsWith(...)\<close> is \<open>undefined\<close> when there is no MIME type.\<close>

definition googleAppsFlag :: "string option \<Rightarrow> bool option" where
  "googleAppsFlag m = map_option (\<lambda>t. startsWith t ''application/vnd.google-apps'') m"

definition exportOptionsFor :: "string option \<Rightarrow> string list" where
  "exportOptionsFor m =
     (if googleAppsFlag m = Some True then
        (if m = Some ''application/vnd.google-apps.document'' then [''pdf'', ''docx'', ''txt'', ''rtf'']
         else if m = Some ''application/vnd.google-apps.spreadsheet'' then [''xlsx'', ''csv'', ''pdf'']
         else if m = Some ''application/vnd.google-apps.presentation'' then [''pptx'', ''pdf'']
         else [''pdf''])
      else [])"

definition GET_file_info :: "string option \<Rightarrow> info_network \<Rightarrow> info_response" where
  "GET_file_info fileIdParam net =
     (if \<not> truthy fileIdParam then InfoError 400 ''File ID is required'' None
      else
        (let fid = the fileIdParam
         in case axios_get (\<lambda>s. True) (info_call net) of
              Inl e \<Rightarrow> InfoError 500 ''Failed to get file information'' None
            | Inr resp \<Rightarrow>
                if status resp \<noteq> 200 then fallbackInfo fid (status resp) net
                else
                  InfoJson
                    \<lparr>info_id = fid,
                     info_name = data_name (data resp),
                     info_mimeType = data_mimeType (data resp),
                     info_size = data_size (data resp),
                     isViewOnly = None,
                     canDownload = (data_canDownload (data resp) = Some True),
                     isGoogleApps = googleAppsFlag (data_mimeType (data resp)),
                     exportOptions = exportOptionsFor (data_mimeType (data resp))\<rparr>))"

text \<open>The invariant of the data model: export options only for a native-app file.\<close>

definition exportOptionsInvariant :: "file_info \<Rightarrow> bool" where
  "exportOptionsInvariant info = (exportOptions info = [] \<or> isGoogleApps info = Some True)"

section \<open>Concrete requests and upstream behaviours\<close>

text \<open>
  The inputs at which the handlers are run below: a request for the file \<open>abc\<close>, replies
  with a given status, header and data, and payloads of a given size.
\<close>

definition plain_request :: request where
  "plain_request =
     \<lparr>fileId = Some ''abc'', format = None, forcePdf_param = None, viewOnly_param = None\<rparr>"

definition view_only_request :: request where
  "view_only_request = plain_request\<lparr>viewOnly_param := Some ''true''\<rparr>"

definition bytes :: "nat \<Rightarrow> payload" where
  "bytes n = replicate n (CHR ''x'')"

definition answer :: "nat \<Rightarrow> string option \<Rightarrow> 'd \<Rightarrow> 'd upstream" where
  "answer code h d = Reply \<lparr>status = code, content_type = h, data = d\<rparr>"

definition offline :: network where
  "offline =
     \<lparr>metadata_call = NetworkFailure ''offline'', print_call = NetworkFailure ''offline'',
      embed_call = NetworkFailure ''offline'', export_call = (\<lambda>f. NetworkFailure ''offline''),
      download_call = NetworkFailure ''offline'', alternative_call = NetworkFailure ''offline'',
      direct_call = NetworkFailure ''offline''\<rparr>"

definition no_metadata :: "metadata upstream" where
  "no_metadata = answer 404 (Some ''application/json'') \<lparr>meta_name = None, meta_mimeType = None\<rparr>"

definition pdf_metadata :: "metadata upstream" where
  "pdf_metadata =
     answer 200 (Some ''application/json'')
       \<lparr>meta_name = Some ''Report'', meta_mimeType = Some ''application/pdf''\<rparr>"

definition sheet_metadata :: "metadata upstream" where
  "sheet_metadata =
     answer 200 (Some ''application/json'')
       \<lparr>meta_name = Some ''Budget'',
        meta_mimeType = Some ''application/vnd.google-apps.spreadsheet''\<rparr>"

definition document_metadata :: "metadata upstream" where
  "document_metadata =
     answer 200 (Some ''application/json'')
       \<lparr>meta_name = Some ''Notes'', meta_mimeType = Some ''application/vnd.google-apps.document''\<rparr>"

text \<open>A restricted file: both download addresses answer 200 with a small HTML page.\<close>

definition error_page_network :: network where
  "error_page_network =
     offline\<lparr>metadata_call := no_metadata,
             download_call := answer 200 (Some ''text/html; charset=utf-8'') (bytes 500),
             alternative_call := answer 200 (Some ''text/html; charset=utf-8'') (bytes 400)\<rparr>"

text \<open>A download labelled as HTML whose payload has 2,000,000 bytes.\<close>

definition large_page_network :: network where
  "large_page_network =
     offline\<lparr>metadata_call := no_metadata,
             download_call := answer 200 (Some ''text/html; charset=utf-8'') (bytes 2000000)\<rparr>"

text \<open>A view-only PDF: the print address gives a stub, the preview address a real body.\<close>

definition pdf_preview_network :: network where
  "pdf_preview_network =
     offline\<lparr>metadata_call := pdf_metadata,
             print_call := answer 200 (Some ''text/html'') (bytes 50),
             embed_call := answer 200 (Some ''application/pdf'') (bytes 40000)\<rparr>"

text \<open>A view-only PDF whose preview address also gives a small HTML page.\<close>

definition stub_preview_network :: network where
  "stub_preview_network =
     offline\<lparr>metadata_call := pdf_metadata,
             print_call := answer 200 (Some ''text/html'') (bytes 50),
             embed_call := answer 200 (Some ''text/html'') (bytes 60)\<rparr>"

text \<open>
  A native spreadsheet whose export answers for \<open>xlsx\<close> only, with a header that does not
  name the spreadsheet type.
\<close>

definition sheet_export_network :: network where
  "sheet_export_network =
     offline\<lparr>metadata_call := sheet_metadata,
             export_call :=
               (\<lambda>f. if f = ''xlsx'' then answer 200 (Some ''text/plain'') (bytes 3000)
                    else answer 404 (Some ''text/html'') (bytes 300))\<rparr>"

text \<open>
  A request for the format \<open>constructor\<close>, and a native spreadsheet whose export answers
  200 whatever the format.
\<close>

definition constructor_request :: request where
  "constructor_request = plain_request\<lparr>format := Some ''constructor''\<rparr>"

definition open_export_network :: network where
  "open_export_network =
     offline\<lparr>metadata_call := sheet_metadata,
             export_call := (\<lambda>f. answer 200 (Some ''text/plain'') (bytes 3000))\<rparr>"


text \<open>
  A native document whose export is refused with 404 while both download addresses would
  deliver the file.
\<close>

definition refused_export_network :: network where
  "refused_export_network =
     offline\<lparr>metadata_call := document_metadata,
             export_call := (\<lambda>f. answer 404 (Some ''text/html'') (bytes 300)),
             download_call := answer 200 (Some ''application/pdf'') (bytes 2000),
             direct_call := answer 200 (Some ''application/pdf'') (bytes 2000)\<rparr>"

text \<open>A file that every address refuses with 404.\<close>

definition all_refused_network :: network where
  "all_refused_network =
     offline\<lparr>metadata_call := no_metadata,
             download_call := answer 404 (Some ''text/html'') (bytes 300),
             alternative_call := answer 404 (Some ''text/html'') (bytes 300),
             direct_call := answer 404 (Some ''text/html'') (bytes 300)\<rparr>"

text \<open>
  For the file-info route: a restricted PDF, seen only through its view page, and a public
  native spreadsheet.
\<close>

definition restricted_pdf_network :: info_network where
  "restricted_pdf_network =
     \<lparr>info_call =
        answer 403 (Some ''application/json'')
          \<lparr>data_name = None, data_mimeType = None, data_size = None, data_canDownload = None\<rparr>,
      view_page_call =
        answer 200 (Some ''text/html'')
          (Some ''<html><title>Report.pdf - Google Drive</title><script src=pdf.js></script></html>'')\<rparr>"

definition public_sheet_network :: info_network where
  "public_sheet_network =
     \<lparr>info_call =
        answer 200 (Some ''application/json'')
          \<lparr>data_name = Some ''Budget'',
           data_mimeType = Some ''application/vnd.google-apps.spreadsheet'',
           data_size = None, data_canDownload = Some True\<rparr>,
      view_page_call = NetworkFailure ''offline''\<rparr>"

section \<open>Facts about the resolver\<close>

lemma table_extensions_lower:
  "\<forall>(k, v) \<in> set mimeToExtension_table. toLowerCase v = v \<and> v \<noteq> []"
  by (simp add: mimeToExtension_table_def toLowerCase_def lower_char_def)

lemma mimeToExtension_lower:
  assumes "mimeToExtension ct = Some e"
  shows "toLowerCase e = e \<and> e \<noteq> []"
proof -
  from assms have "(ct, e) \<in> set mimeToExtension_table"
    unfolding mimeToExtension_def by (rule map_of_SomeD)
  with table_extensions_lower show ?thesis by blast
qed

lemma pdf_filename:
  "getProperFilename fileName ''application/pdf'' (Some ''pdf'') =
     removeExtension fileName @ ''.pdf''"
  by (simp add: getProperFilename_def truthy_def)

lemma format_filename:
  "f \<noteq> [] \<Longrightarrow> getProperFilename fileName ct (Some f) = removeExtension fileName @ ''.'' @ f"
  by (simp add: getProperFilename_def truthy_def)

text \<open>
  C9. The resolver leaves a name alone when the name's extension is the one the table
  gives for the content type and no format is requested: if \<open>/\.([^.]+)$/\<close> finds the
  extension \<open>e\<close> in \<open>baseName\<close>, the table maps \<open>contentType\<close> to \<open>e\<close>, and the format
  argument is \<open>null\<close> or empty, then \<open>getProperFilename\<close> returns \<open>baseName\<close>.
\<close>

theorem resolver_idempotent:
  assumes "match_ext not_dot baseName = Some e"
    and "mimeToExtension contentType = Some e"
    and "\<not> truthy specifiedFormat"
  shows "getProperFilename baseName contentType specifiedFormat = baseName"
  using assms mimeToExtension_lower [OF assms(2)]
  by (simp add: getProperFilename_def truthy_def member_at_def member_truthy_def)

theorem resolver_idempotent_witness:
  "match_ext not_dot ''Report.pdf'' = Some ''pdf'' \<and>
   mimeToExtension ''application/pdf'' = Some ''pdf'' \<and>
   getProperFilename ''Report.pdf'' ''application/pdf'' None = ''Report.pdf''"
proof -
  have m: "match_ext not_dot ''Report.pdf'' = Some ''pdf''"
    by (simp add: not_dot_def)
  have t: "mimeToExtension ''application/pdf'' = Some ''pdf''"
    by (simp add: mimeToExtension_def mimeToExtension_table_def)
  have n: "\<not> truthy None"
    by (simp add: truthy_def)
  from m t resolver_idempotent [OF m t n] show ?thesis by simp
qed

section \<open>Facts about the extractors\<close>














text \<open>A group \<open>(...+)\<close> never captures the empty string.\<close>

lemma search_Some_at: "search at s = Some m \<Longrightarrow> \<exists>t. at t = Some m"
  by (induction s) (auto split: option.splits)

lemma capture_at_nonempty: "capture_at lit ok t = Some m \<Longrightarrow> m \<noteq> []"
  by (auto simp: capture_at_def Let_def split: if_splits)

lemma docs_at_nonempty: "docs_at t = Some m \<Longrightarrow> m \<noteq> []"
  by (auto simp: docs_at_def Let_def dest: capture_at_nonempty split: if_splits)


lemma docs_pattern_nonempty: "docs_pattern url \<noteq> Some []"
  unfolding docs_pattern_def using search_Some_at docs_at_nonempty by blast




text \<open>
  Where the pattern for \<open>spreadsheets/d/\<close> or \<open>presentation/d/\<close> matches, the generic
  pattern \<open>docs.google.com/\w+/d/\<close> matches at the same position with the same group.
\<close>

lemma spreadsheets_at_imp_docs_at:
  assumes "capture_at ''docs.google.com/spreadsheets/d/'' not_slash_question s = Some m"
  shows "docs_at s = Some m"
proof -
  from assms have "prefix ''docs.google.com/spreadsheets/d/'' s"
    by (simp add: capture_at_def split: if_splits)
  then obtain r where s: "s = ''docs.google.com/spreadsheets/d/'' @ r"
    by (auto simp: prefix_def)
  from assms show ?thesis
    unfolding s by (simp add: docs_at_def capture_at_def word_char_def)
qed

lemma presentation_at_imp_docs_at:
  assumes "capture_at ''docs.google.com/presentation/d/'' not_slash_question s = Some m"
  shows "docs_at s = Some m"
proof -
  from assms have "prefix ''docs.google.com/presentation/d/'' s"
    by (simp add: capture_at_def split: if_splits)
  then obtain r where s: "s = ''docs.google.com/presentation/d/'' @ r"
    by (auto simp: prefix_def)
  from assms show ?thesis
    unfolding s by (simp add: docs_at_def capture_at_def word_char_def)
qed

lemma search_mono:
  assumes imp: "\<And>t m. at1 t = Some m \<Longrightarrow> at2 t = Some m"
  shows "search at1 s \<noteq> None \<Longrightarrow> search at2 s \<noteq> None"
proof (induction s)
  case Nil
  then show ?case using imp [of "[]"] by auto
next
  case (Cons x xs)
  show ?case
  proof (cases "at1 (x # xs)")
    case None
    with Cons show ?thesis by (simp split: option.splits)
  next
    case (Some m)
    then have "at2 (x # xs) = Some m" by (rule imp)
    then show ?thesis by simp
  qed
qed

lemma spreadsheets_subsumed:
  "spreadsheets_pattern url \<noteq> None \<Longrightarrow> docs_pattern url \<noteq> None"
  unfolding spreadsheets_pattern_def docs_pattern_def
  by (rule search_mono) (rule spreadsheets_at_imp_docs_at)

lemma presentation_subsumed:
  "presentation_pattern url \<noteq> None \<Longrightarrow> docs_pattern url \<noteq> None"
  unfolding presentation_pattern_def docs_pattern_def
  by (rule search_mono) (rule presentation_at_imp_docs_at)

text \<open>
  C10. The two extractors agree on every string: \<open>extractFileId\<close>, with six patterns, and
  \<open>extractGoogleDriveFileId\<close>, with the first four of them, return the same result,
  because the fifth and the sixth pattern can match only where the third already has.
\<close>

theorem extractors_equivalent: "extractFileId url = extractGoogleDriveFileId url"
proof (cases "docs_pattern url")
  case None
  then have "spreadsheets_pattern url = None" "presentation_pattern url = None"
    using spreadsheets_subsumed presentation_subsumed by blast+
  with None show ?thesis
    by (simp add: extractFileId_def extractGoogleDriveFileId_def split: option.splits)
next
  case (Some m)
  with docs_pattern_nonempty [of url] have "m \<noteq> []" by auto
  with Some show ?thesis
    by (simp add: extractFileId_def extractGoogleDriveFileId_def split: option.splits)
qed

section \<open>Facts about the download route\<close>

text \<open>Header values that \<open>new Response\<close> accepts and leaves as they are.\<close>

lemma byte_string_ascii: "list_all (\<lambda>c. (of_char c :: nat) < 128) v \<Longrightarrow> byte_string v"
  by (induction v rule: byte_string.induct) auto

lemma disposition_normal:
  "normalizeValue (''attachment; filename='' @ [CHR 0x22] @ fn @ [CHR 0x22]) =
     ''attachment; filename='' @ [CHR 0x22] @ fn @ [CHR 0x22]"
  by (simp add: normalizeValue_def http_whitespace_def)

lemma clean_content_types:
  "normalizeValue ''application/pdf'' = ''application/pdf''"
  "validHeaderValue ''application/pdf''"
  "normalizeValue ''text/html; charset=utf-8'' = ''text/html; charset=utf-8''"
  "validHeaderValue ''text/html; charset=utf-8''"
  by (simp_all add: validHeaderValue_def normalizeValue_def http_whitespace_def byte_string_ascii)

lemma clean_dispositions:
  "validHeaderValue (''attachment; filename='' @ [CHR 0x22] @ ''file_abc.bin'' @ [CHR 0x22])"
  "validHeaderValue (''attachment; filename='' @ [CHR 0x22] @ ''Report.pdf'' @ [CHR 0x22])"
  "validHeaderValue (''attachment; filename='' @ [CHR 0x22] @ ''Budget.xlsx'' @ [CHR 0x22])"
  "validHeaderValue (''attachment; filename='' @ [CHR 0x22] @ ''Budget.constructor'' @ [CHR 0x22])"
  "validHeaderValue (''attachment; filename='' @ [CHR 0x22] @ ''Notes.docx'' @ [CHR 0x22])"
  by (simp_all add: validHeaderValue_def normalizeValue_def http_whitespace_def byte_string_ascii)

lemmas flat_dispositions = clean_dispositions [simplified]

lemma returnFile_clean:
  assumes "normalizeValue ct = ct" and "validHeaderValue ct"
    and "validHeaderValue (''attachment; filename='' @ [CHR 0x22] @ fn @ [CHR 0x22])"
  shows "returnFile d ct fn = Returned (file_response d ct fn)"
  using assms disposition_normal [of fn]
  by (simp add: returnFile_def returnResponse_def new_Response_def file_response_def)

lemma returnFile_refused:
  assumes "validHeaderValue ct"
    and "\<not> validHeaderValue (''attachment; filename='' @ [CHR 0x22] @ fn @ [CHR 0x22])"
  shows "returnFile d ct fn =
     Thrown (InvalidHeaderValue (''attachment; filename='' @ [CHR 0x22] @ fn @ [CHR 0x22]))"
  using assms
  by (simp add: returnFile_def returnResponse_def new_Response_def)

text \<open>
  Whatever the export format, the content type of the export block is a clean header
  value: an entry of \<open>contentTypeMap\<close>, the text of an inherited member, or the fallback.
\<close>

lemma export_content_type_clean:
  "normalizeValue (member_or (member_at contentTypeMap f) ''application/octet-stream'') =
     member_or (member_at contentTypeMap f) ''application/octet-stream'' \<and>
   validHeaderValue (member_or (member_at contentTypeMap f) ''application/octet-stream'')"
proof (cases "contentTypeMap f")
  case (Some v)
  then have "(f, v) \<in> set
       [(''pdf'', ''application/pdf''),
        (''docx'', ''application/vnd.openxmlformats-officedocument.wordprocessingml.document''),
        (''xlsx'', ''application/vnd.openxmlformats-officedocument.spreadsheetml.sheet''),
        (''pptx'', ''application/vnd.openxmlformats-officedocument.presentationml.presentation''),
        (''csv'', ''text/csv''),
        (''txt'', ''text/plain''),
        (''rtf'', ''application/rtf'')]"
    unfolding contentTypeMap_def by (rule map_of_SomeD)
  then have "v \<in> {''application/pdf'',
        ''application/vnd.openxmlformats-officedocument.wordprocessingml.document'',
        ''application/vnd.openxmlformats-officedocument.spreadsheetml.sheet'',
        ''application/vnd.openxmlformats-officedocument.presentationml.presentation'',
        ''text/csv'', ''text/plain'', ''application/rtf''}"
    by auto
  then have "v \<noteq> [] \<and> normalizeValue v = v \<and> validHeaderValue v"
    by (auto simp: validHeaderValue_def normalizeValue_def http_whitespace_def byte_string_ascii)
  with Some show ?thesis
    by (simp add: member_at_def member_or_def member_truthy_def member_text_def)
next
  case None
  show ?thesis
  proof (cases "map_of inherited_members f")
    case inh: (Some t)
    then have "(f, t) \<in> set inherited_members" by (rule map_of_SomeD)
    then have "t \<in> snd ` set inherited_members" by force
    then have "normalizeValue t = t \<and> validHeaderValue t"
      by (auto simp: inherited_members_def validHeaderValue_def normalizeValue_def
          http_whitespace_def byte_string_ascii)
    with None inh show ?thesis
      by (simp add: member_at_def member_or_def member_truthy_def member_text_def)
  next
    case inh: None
    have "normalizeValue ''application/octet-stream'' = ''application/octet-stream'' \<and>
        validHeaderValue ''application/octet-stream''"
      by (simp add: validHeaderValue_def normalizeValue_def http_whitespace_def byte_string_ascii)
    with None inh show ?thesis
      by (simp add: member_at_def member_or_def member_truthy_def member_text_def)
  qed
qed

text \<open>The metadata probe on the concrete networks.\<close>

lemma probeMetadata_ok:
  assumes "metadata_call net = Reply m" and "status m = 200"
  shows "probeMetadata fid net =
     (or_else (meta_name (data m)) (''file_'' @ fid),
      or_else (meta_mimeType (data m)) ''application/octet-stream'')"
  using assms by (simp add: probeMetadata_def axios_get_def Let_def)

lemma probeMetadata_no_metadata:
  assumes "metadata_call net = no_metadata"
  shows "probeMetadata fid net = (''file_'' @ fid, ''application/octet-stream'')"
  using assms by (simp add: probeMetadata_def axios_get_def no_metadata_def answer_def Let_def)

lemma probeMetadata_pdf:
  assumes "metadata_call net = pdf_metadata"
  shows "probeMetadata fid net = (''Report'', ''application/pdf'')"
  using assms by (simp add: probeMetadata_ok pdf_metadata_def answer_def or_else_def)

lemma probeMetadata_sheet:
  assumes "metadata_call net = sheet_metadata"
  shows "probeMetadata fid net = (''Budget'', ''application/vnd.google-apps.spreadsheet'')"
  using assms by (simp add: probeMetadata_ok sheet_metadata_def answer_def or_else_def)


lemma extensionless_names:
  "removeExtension ''file_abc'' = ''file_abc''" "removeExtension ''Report'' = ''Report''"
  "removeExtension ''Budget'' = ''Budget''" "removeExtension ''Notes'' = ''Notes''"
  "match_ext not_dot ''file_abc'' = None"
  by (simp_all add: removeExtension_def)

lemma html_charset_unknown:
  "member_at mimeToExtension ''text/html; charset=utf-8'' = Undefined"
  by (simp add: member_at_def mimeToExtension_def mimeToExtension_table_def
      inherited_members_def)

lemma chooseExportFormat_nonempty: "chooseExportFormat mimeType fmt \<noteq> []"
  by (cases fmt) (auto simp: chooseExportFormat_def truthy_def or_else_def Let_def)

lemma chooseExportFormat_table:
  "chooseExportFormat mimeType fmt =
     (if truthy fmt then the fmt
      else if mimeType = ''application/vnd.google-apps.spreadsheet'' then ''xlsx''
      else if mimeType = ''application/vnd.google-apps.presentation'' then ''pptx''
      else if mimeType = ''application/vnd.google-apps.document'' then ''docx''
      else ''pdf'')"
  by (cases fmt) (simp_all add: chooseExportFormat_def truthy_def or_else_def)

text \<open>The two blocks the claims are about, case by case.\<close>

lemma viewOnlyPdf_cases:
  "viewOnlyPdf fileName net =
     (case print_call net of
        NetworkFailure m \<Rightarrow> Fallthrough
      | Reply p \<Rightarrow>
          if printAccepted p then
            (if validHeaderValue
                  (''attachment; filename='' @ [CHR 0x22] @ (removeExtension fileName @ ''.pdf'') @
                   [CHR 0x22])
             then Returned (file_response (data p) ''application/pdf''
                              (removeExtension fileName @ ''.pdf''))
             else Fallthrough)
          else
            (case embed_call net of
               NetworkFailure m \<Rightarrow> Fallthrough
             | Reply e \<Rightarrow>
                 if status e = 200 \<and>
                    validHeaderValue
                      (''attachment; filename='' @ [CHR 0x22] @
                       (removeExtension fileName @ ''.pdf'') @ [CHR 0x22])
                 then Returned (file_response (data e) ''application/pdf''
                                  (removeExtension fileName @ ''.pdf''))
                 else Fallthrough))"
proof (cases "validHeaderValue
    (''attachment; filename='' @ [CHR 0x22] @ (removeExtension fileName @ ''.pdf'') @ [CHR 0x22])")
  case True
  then have "returnFile d ''application/pdf'' (removeExtension fileName @ ''.pdf'') =
      Returned (file_response d ''application/pdf'' (removeExtension fileName @ ''.pdf''))" for d
    by (intro returnFile_clean clean_content_types)
  with True show ?thesis
    by (simp add: viewOnlyPdf_def axios_get_def pdf_filename caught_def
        split: upstream.splits)
next
  case False
  then have "returnFile d ''application/pdf'' (removeExtension fileName @ ''.pdf'') =
      Thrown (InvalidHeaderValue
        (''attachment; filename='' @ [CHR 0x22] @ (removeExtension fileName @ ''.pdf'') @
         [CHR 0x22]))" for d
    by (intro returnFile_refused clean_content_types)
  with False show ?thesis
    by (simp add: viewOnlyPdf_def axios_get_def pdf_filename caught_def
        split: upstream.splits)
qed

lemma googleDocs_cases:
  "googleDocs fileName mimeType fmt net =
     (case export_call net (chooseExportFormat mimeType fmt) of
        NetworkFailure m \<Rightarrow> Thrown (TransportError m)
      | Reply r \<Rightarrow>
          if status r = 200 then
            (if validHeaderValue
                  (''attachment; filename='' @ [CHR 0x22] @
                   (removeExtension fileName @ ''.'' @ chooseExportFormat mimeType fmt) @
                   [CHR 0x22])
             then Returned (file_response (data r)
                    (member_or (member_at contentTypeMap (chooseExportFormat mimeType fmt))
                       ''application/octet-stream'')
                    (removeExtension fileName @ ''.'' @ chooseExportFormat mimeType fmt))
             else Thrown (InvalidHeaderValue
                    (''attachment; filename='' @ [CHR 0x22] @
                     (removeExtension fileName @ ''.'' @ chooseExportFormat mimeType fmt) @
                     [CHR 0x22])))
          else Thrown (StatusError (status r)))"
proof -
  let ?f = "chooseExportFormat mimeType fmt"
  let ?ct = "member_or (member_at contentTypeMap ?f) ''application/octet-stream''"
  let ?fn = "removeExtension fileName @ ''.'' @ ?f"
  have name: "getProperFilename fileName ?ct (Some ?f) = ?fn"
    by (rule format_filename) (rule chooseExportFormat_nonempty)
  note clean = export_content_type_clean [of ?f]
  show ?thesis
  proof (cases "validHeaderValue (''attachment; filename='' @ [CHR 0x22] @ ?fn @ [CHR 0x22])")
    case True
    then have "returnFile d ?ct ?fn = Returned (file_response d ?ct ?fn)" for d
      using clean by (intro returnFile_clean) simp_all
    with True show ?thesis
      by (simp add: googleDocs_def Let_def axios_get_def data_truthy_def name
          split: upstream.splits)
  next
    case False
    then have "returnFile d ?ct ?fn =
        Thrown (InvalidHeaderValue (''attachment; filename='' @ [CHR 0x22] @ ?fn @ [CHR 0x22]))"
      for d
      using clean by (intro returnFile_refused) simp_all
    with False show ?thesis
      by (simp add: googleDocs_def Let_def axios_get_def data_truthy_def name
          split: upstream.splits)
  qed
qed

text \<open>The handler once the metadata probe is known.\<close>

lemma GET_unfold:
  assumes "truthy (fileId req)"
    and "probeMetadata (the (fileId req)) net = (fileName, mimeType)"
  shows "GET req net =
     outerCatch (the (fileId req))
       (and_then
          (if viewOnlyCondition (viewOnly_param req = Some ''true'')
                (forcePdf_param req = Some ''true'') mimeType
           then viewOnlyPdf fileName net else Fallthrough)
          (laterStrategies (the (fileId req)) fileName mimeType (format req) net))"
  using assms by (simp add: GET_def downloadChain_def Let_def)

lemma GET_export:
  assumes "truthy (fileId req)"
    and "probeMetadata (the (fileId req)) net = (fileName, mimeType)"
    and "viewOnlyCondition (viewOnly_param req = Some ''true'')
           (forcePdf_param req = Some ''true'') mimeType \<longrightarrow>
         viewOnlyPdf fileName net = Fallthrough"
    and "startsWith mimeType ''application/vnd.google-apps''"
  shows "GET req net =
     outerCatch (the (fileId req)) (googleDocs fileName mimeType (format req) net)"
proof -
  have before: "(if viewOnlyCondition (viewOnly_param req = Some ''true'')
         (forcePdf_param req = Some ''true'') mimeType
       then viewOnlyPdf fileName net else Fallthrough) = Fallthrough"
    using assms(3) by simp
  have docs: "googleDocs fileName mimeType (format req) net \<noteq> Fallthrough"
    by (simp add: googleDocs_cases split: upstream.splits)
  show ?thesis
    using assms(4) docs
    by (cases "googleDocs fileName mimeType (format req) net")
       (simp_all add: GET_unfold [OF assms(1,2)] before laterStrategies_def and_then_def)
qed

text \<open>
  C1. The claim: on the direct-download path a 200 reply labelled \<open>text/html\<close> with 500
  bytes is not delivered, and one with 2,000,000 bytes is. The handler does ask the
  alternative address when the small HTML reply arrives, but when that answer is refused
  too (here: another small HTML page) it goes on to return the first reply: the caller
  receives the 500-byte page as \<open>file_abc.bin\<close> with the content type \<open>text/html\<close>. The
  large reply is delivered, as the claim says.
\<close>

theorem small_html_page_is_delivered:
  "GET plain_request error_page_network =
     file_response (bytes 500) ''text/html; charset=utf-8'' ''file_abc.bin'' \<and>
   byteLength (bytes 500) = 500 \<and>
   includes_str ''text/html; charset=utf-8'' ''text/html'' \<and>
   GET plain_request large_page_network =
     file_response (bytes 2000000) ''text/html; charset=utf-8'' ''file_abc.bin''"
proof (intro conjI)
  have name: "getProperFilename ''file_abc'' ''text/html; charset=utf-8'' None = ''file_abc.bin''"
    by (simp add: getProperFilename_def truthy_def extensionless_names html_charset_unknown
        member_or_def member_truthy_def)
  have deliver: "returnFile d ''text/html; charset=utf-8'' ''file_abc.bin'' =
      Returned (file_response d ''text/html; charset=utf-8'' ''file_abc.bin'')" for d
    by (intro returnFile_clean clean_content_types clean_dispositions)
  show "GET plain_request error_page_network =
      file_response (bytes 500) ''text/html; charset=utf-8'' ''file_abc.bin''"
    by (simp add: GET_def plain_request_def truthy_def downloadChain_def laterStrategies_def
        outerCatch_def probeMetadata_no_metadata error_page_network_def offline_def
        viewOnlyCondition_def startsWith_def and_then_def standardDownload_def
        alternativeDownload_def axios_get_def answer_def data_truthy_def byteLength_def
        bytes_def or_else_def name deliver)
  show "GET plain_request large_page_network =
      file_response (bytes 2000000) ''text/html; charset=utf-8'' ''file_abc.bin''"
    by (simp add: GET_def plain_request_def truthy_def downloadChain_def laterStrategies_def
        outerCatch_def probeMetadata_no_metadata large_page_network_def offline_def
        viewOnlyCondition_def startsWith_def and_then_def standardDownload_def axios_get_def
        answer_def data_truthy_def byteLength_def bytes_def or_else_def name deliver)
  show "byteLength (bytes 500) = 500"
    by (simp add: byteLength_def bytes_def)
  show "includes_str ''text/html; charset=utf-8'' ''text/html''"
    by simp
qed

text \<open>
  C2, as stated, fails for the second sub-attempt: the preview reply wins on its status
  alone. With the print address answering a 50-byte stub and the preview address a
  60-byte HTML page, the handler delivers the 60-byte page as \<open>Report.pdf\<close>.
\<close>

theorem small_preview_page_wins:
  "GET view_only_request stub_preview_network =
     file_response (bytes 60) ''application/pdf'' ''Report.pdf'' \<and>
   byteLength (bytes 60) = 60 \<and>
   \<not> header_not_html (Some ''text/html'')"
proof (intro conjI)
  have t: "truthy (fileId view_only_request)"
    by (simp add: view_only_request_def plain_request_def truthy_def)
  have m: "probeMetadata (the (fileId view_only_request)) stub_preview_network =
      (''Report'', ''application/pdf'')"
    by (rule probeMetadata_pdf) (simp add: stub_preview_network_def offline_def)
  have c: "viewOnlyCondition (viewOnly_param view_only_request = Some ''true'')
      (forcePdf_param view_only_request = Some ''true'') ''application/pdf''"
    by (simp add: view_only_request_def viewOnlyCondition_def)
  have "viewOnlyPdf ''Report'' stub_preview_network =
      Returned (file_response (bytes 60) ''application/pdf'' ''Report.pdf'')"
    by (simp add: viewOnlyPdf_cases stub_preview_network_def offline_def answer_def
        printAccepted_def byteLength_def bytes_def extensionless_names flat_dispositions)
  then show "GET view_only_request stub_preview_network =
      file_response (bytes 60) ''application/pdf'' ''Report.pdf''"
    by (simp add: GET_unfold [OF t m] c and_then_def outerCatch_def)
  show "byteLength (bytes 60) = 60"
    by (simp add: byteLength_def bytes_def)
  show "\<not> header_not_html (Some ''text/html'')"
    by (simp add: header_not_html_def)
qed

text \<open>The strategies after the view-only block do not read the print and preview replies.\<close>

lemma alternativeDownload_independent:
  "alternativeDownload fileName mimeType (net\<lparr>print_call := x, embed_call := y\<rparr>) =
     alternativeDownload fileName mimeType net"
  by (simp add: alternativeDownload_def)

lemma standardDownload_independent:
  "standardDownload fileName mimeType (net\<lparr>print_call := x, embed_call := y\<rparr>) =
     standardDownload fileName mimeType net"
  by (simp add: standardDownload_def alternativeDownload_independent
      cong: if_cong sum.case_cong)

lemma laterStrategies_independent:
  "laterStrategies fid fileName mimeType fmt (net\<lparr>print_call := x, embed_call := y\<rparr>) =
     laterStrategies fid fileName mimeType fmt net"
  by (simp add: laterStrategies_def googleDocs_def standardDownload_independent
      directDownload_def)

text \<open>
  C2, amended. Let the metadata probe give the name \<open>fileName\<close> and the type \<open>mimeType\<close>,
  and let the request enter the view-only path (\<open>viewOnly\<close> or \<open>forcePdf\<close> is set, and the
  type contains \<open>pdf\<close> or \<open>forcePdf\<close> is set; in particular \<open>viewOnly=true\<close> with the type
  \<open>application/pdf\<close>). Write \<open>later\<close> for the answer of the strategies that follow the
  view-only path; they do not read the print and preview replies. Then the handler
  answers as follows, and in no other way. The print sub-attempt wins when its reply has
  status 200, more than 1000 bytes and no \<open>text/html\<close> content type: the handler delivers
  its data as \<open>application/pdf\<close> under the name of the file with the extension \<open>.pdf\<close>;
  when \<open>new Response\<close> refuses that name, or the print call fails in transport, the
  answer is \<open>later\<close>. When the print reply is there but does not win, the preview
  sub-attempt wins whenever its status is 200, whatever its size and content type, and is
  delivered in the same way; otherwise the answer is \<open>later\<close>. So a first reply of status
  200 with 50 bytes is rejected, a second reply of status 200 with 40,000 bytes is
  delivered, and the filename in its disposition header ends in \<open>.pdf\<close>.
\<close>

theorem view_only_sub_attempts:
  assumes "truthy (fileId req)"
    and "probeMetadata (the (fileId req)) net = (fileName, mimeType)"
    and "viewOnlyCondition (viewOnly_param req = Some ''true'')
           (forcePdf_param req = Some ''true'') mimeType"
    and "pdfName = removeExtension fileName @ ''.pdf''"
    and "accepted =
           validHeaderValue (''attachment; filename='' @ [CHR 0x22] @ pdfName @ [CHR 0x22])"
    and "later =
           outerCatch (the (fileId req))
             (laterStrategies (the (fileId req)) fileName mimeType (format req) net)"
  shows "GET req net =
           (case print_call net of
              NetworkFailure m \<Rightarrow> later
            | Reply p \<Rightarrow>
                if status p = 200 \<and> 1000 < length (data p) \<and>
                   (case content_type p of
                      None \<Rightarrow> True
                    | Some ct \<Rightarrow> \<not> includes_str ct ''text/html'')
                then (if accepted then file_response (data p) ''application/pdf'' pdfName
                      else later)
                else
                  (case embed_call net of
                     NetworkFailure m \<Rightarrow> later
                   | Reply e \<Rightarrow>
                       if status e = 200 \<and> accepted
                       then file_response (data e) ''application/pdf'' pdfName
                       else later)) \<and>
         laterStrategies (the (fileId req)) fileName mimeType (format req)
             (net\<lparr>print_call := x, embed_call := y\<rparr>) =
           laterStrategies (the (fileId req)) fileName mimeType (format req) net \<and>
         (\<forall>p e. print_call net = Reply p \<and> status p = 200 \<and> length (data p) = 50 \<and>
                embed_call net = Reply e \<and> status e = 200 \<and> length (data e) = 40000 \<and>
                accepted \<longrightarrow>
            GET req net =
              \<lparr>rstatus = 200,
               rheaders =
                 [(''Content-Type'', ''application/pdf''),
                  (''Content-Disposition'',
                   ''attachment; filename='' @ [CHR 0x22] @ removeExtension fileName @ ''.pdf'' @
                   [CHR 0x22])],
               rbody = Bytes (data e)\<rparr>)"
proof (intro conjI allI impI)
  have unfolded: "GET req net =
      outerCatch (the (fileId req))
        (and_then (viewOnlyPdf fileName net)
           (laterStrategies (the (fileId req)) fileName mimeType (format req) net))"
    by (simp add: GET_unfold [OF assms(1,2)] assms(3))
  show cases: "GET req net =
      (case print_call net of
         NetworkFailure m \<Rightarrow> later
       | Reply p \<Rightarrow>
           if status p = 200 \<and> 1000 < length (data p) \<and>
              (case content_type p of
                 None \<Rightarrow> True
               | Some ct \<Rightarrow> \<not> includes_str ct ''text/html'')
           then (if accepted then file_response (data p) ''application/pdf'' pdfName
                 else later)
           else
             (case embed_call net of
                NetworkFailure m \<Rightarrow> later
              | Reply e \<Rightarrow>
                  if status e = 200 \<and> accepted
                  then file_response (data e) ''application/pdf'' pdfName
                  else later))"
    unfolding unfolded viewOnlyPdf_cases assms(4,5,6)
    by (simp add: and_then_def outerCatch_def printAccepted_def data_truthy_def byteLength_def
        header_not_html_def split: upstream.splits)
  show "laterStrategies (the (fileId req)) fileName mimeType (format req)
          (net\<lparr>print_call := x, embed_call := y\<rparr>) =
        laterStrategies (the (fileId req)) fileName mimeType (format req) net"
    by (rule laterStrategies_independent)
  fix p e
  assume scenario: "print_call net = Reply p \<and> status p = 200 \<and> length (data p) = 50 \<and>
      embed_call net = Reply e \<and> status e = 200 \<and> length (data e) = 40000 \<and> accepted"
  then show "GET req net =
      \<lparr>rstatus = 200,
       rheaders =
         [(''Content-Type'', ''application/pdf''),
          (''Content-Disposition'',
           ''attachment; filename='' @ [CHR 0x22] @ removeExtension fileName @ ''.pdf'' @
           [CHR 0x22])],
       rbody = Bytes (data e)\<rparr>"
    unfolding cases by (simp add: file_response_def assms(4))
qed

theorem view_only_sub_attempts_witness:
  "GET view_only_request pdf_preview_network =
     \<lparr>rstatus = 200,
      rheaders =
        [(''Content-Type'', ''application/pdf''),
         (''Content-Disposition'', ''attachment; filename='' @ [CHR 0x22] @ ''Report.pdf'' @ [CHR 0x22])],
      rbody = Bytes (bytes 40000)\<rparr>"
proof -
  let ?p = "\<lparr>status = 200, content_type = Some ''text/html'', data = bytes 50\<rparr>"
  let ?e = "\<lparr>status = 200, content_type = Some ''application/pdf'', data = bytes 40000\<rparr>"
  have h1: "truthy (fileId view_only_request)"
    by (simp add: view_only_request_def plain_request_def truthy_def)
  have h2: "probeMetadata (the (fileId view_only_request)) pdf_preview_network =
      (''Report'', ''application/pdf'')"
    by (rule probeMetadata_pdf) (simp add: pdf_preview_network_def offline_def)
  have h3: "viewOnlyCondition (viewOnly_param view_only_request = Some ''true'')
      (forcePdf_param view_only_request = Some ''true'') ''application/pdf''"
    by (simp add: view_only_request_def viewOnlyCondition_def)
  have h4: "''Report.pdf'' = removeExtension ''Report'' @ ''.pdf''"
    by (simp add: extensionless_names)
  have h5: "True =
      validHeaderValue (''attachment; filename='' @ [CHR 0x22] @ ''Report.pdf'' @ [CHR 0x22])"
    by (simp add: flat_dispositions)
  have scenario: "print_call pdf_preview_network = Reply ?p \<and> status ?p = 200 \<and>
      length (data ?p) = 50 \<and> embed_call pdf_preview_network = Reply ?e \<and> status ?e = 200 \<and>
      length (data ?e) = 40000 \<and> True"
    by (simp add: pdf_preview_network_def offline_def answer_def bytes_def)
  from view_only_sub_attempts [OF h1 h2 h3 h4 h5 refl] scenario
  have "GET view_only_request pdf_preview_network =
     \<lparr>rstatus = 200,
      rheaders =
        [(''Content-Type'', ''application/pdf''),
         (''Content-Disposition'',
          ''attachment; filename='' @ [CHR 0x22] @ removeExtension ''Report'' @ ''.pdf'' @
          [CHR 0x22])],
      rbody = Bytes (data ?e)\<rparr>"
    by blast
  then show ?thesis by (simp add: extensionless_names)
qed




text \<open>
  C4. The claim: the content type of a successful export is the entry of the static
  table, and \<open>application/octet-stream\<close> for a format the table does not know. The table
  is an object literal read with the format of the request as its key, and for the format
  \<open>constructor\<close>, which the literal does not hold, the read finds the constructor that every
  object inherits: it is truthy, so the fallback is not taken and the content type sent
  is the text of that function. The rest of the claim holds: for a native spreadsheet with
  no requested format the content type is the spreadsheet type of the table, although the
  export reply says \<open>text/plain\<close>, and the filename ends in \<open>.xlsx\<close>.
\<close>

theorem inherited_format_content_type:
  "contentTypeMap ''constructor'' = None \<and>
   GET constructor_request open_export_network =
     \<lparr>rstatus = 200,
      rheaders =
        [(''Content-Type'', ''function Object() { [native code] }''),
         (''Content-Disposition'',
          ''attachment; filename='' @ [CHR 0x22] @ ''Budget.constructor'' @ [CHR 0x22])],
      rbody = Bytes (bytes 3000)\<rparr> \<and>
   GET plain_request sheet_export_network =
     \<lparr>rstatus = 200,
      rheaders =
        [(''Content-Type'', ''application/vnd.openxmlformats-officedocument.spreadsheetml.sheet''),
         (''Content-Disposition'', ''attachment; filename='' @ [CHR 0x22] @ ''Budget.xlsx'' @ [CHR 0x22])],
      rbody = Bytes (bytes 3000)\<rparr>"
proof (intro conjI)
  show none: "contentTypeMap ''constructor'' = None"
    by (simp add: contentTypeMap_def)
  have sheet: "startsWith ''application/vnd.google-apps.spreadsheet'' ''application/vnd.google-apps''"
    by (simp add: startsWith_def)
  have ct: "member_or (member_at contentTypeMap ''constructor'') ''application/octet-stream'' =
      ''function Object() { [native code] }''"
    by (simp add: member_at_def none inherited_members_def member_or_def member_truthy_def
        member_text_def)
  have f: "chooseExportFormat ''application/vnd.google-apps.spreadsheet''
      (format constructor_request) = ''constructor''"
    by (simp add: chooseExportFormat_table constructor_request_def truthy_def)
  have h1: "truthy (fileId constructor_request)"
    by (simp add: constructor_request_def plain_request_def truthy_def)
  have h2: "probeMetadata (the (fileId constructor_request)) open_export_network =
      (''Budget'', ''application/vnd.google-apps.spreadsheet'')"
    by (rule probeMetadata_sheet) (simp add: open_export_network_def offline_def)
  have h3: "viewOnlyCondition (viewOnly_param constructor_request = Some ''true'')
      (forcePdf_param constructor_request = Some ''true'')
      ''application/vnd.google-apps.spreadsheet'' \<longrightarrow>
      viewOnlyPdf ''Budget'' open_export_network = Fallthrough"
    by (simp add: constructor_request_def plain_request_def viewOnlyCondition_def)
  show "GET constructor_request open_export_network =
     \<lparr>rstatus = 200,
      rheaders =
        [(''Content-Type'', ''function Object() { [native code] }''),
         (''Content-Disposition'',
          ''attachment; filename='' @ [CHR 0x22] @ ''Budget.constructor'' @ [CHR 0x22])],
      rbody = Bytes (bytes 3000)\<rparr>"
    unfolding GET_export [OF h1 h2 h3 sheet] googleDocs_cases f ct
    by (simp add: open_export_network_def offline_def answer_def extensionless_names
        flat_dispositions outerCatch_def file_response_def)
  have g: "chooseExportFormat ''application/vnd.google-apps.spreadsheet''
      (format plain_request) = ''xlsx''"
    by (simp add: chooseExportFormat_table plain_request_def truthy_def)
  have ct2: "member_or (member_at contentTypeMap ''xlsx'') ''application/octet-stream'' =
      ''application/vnd.openxmlformats-officedocument.spreadsheetml.sheet''"
    by (simp add: member_at_def contentTypeMap_def member_or_def member_truthy_def
        member_text_def)
  have k1: "truthy (fileId plain_request)"
    by (simp add: plain_request_def truthy_def)
  have k2: "probeMetadata (the (fileId plain_request)) sheet_export_network =
      (''Budget'', ''application/vnd.google-apps.spreadsheet'')"
    by (rule probeMetadata_sheet) (simp add: sheet_export_network_def offline_def)
  have k3: "viewOnlyCondition (viewOnly_param plain_request = Some ''true'')
      (forcePdf_param plain_request = Some ''true'')
      ''application/vnd.google-apps.spreadsheet'' \<longrightarrow>
      viewOnlyPdf ''Budget'' sheet_export_network = Fallthrough"
    by (simp add: plain_request_def viewOnlyCondition_def)
  show "GET plain_request sheet_export_network =
     \<lparr>rstatus = 200,
      rheaders =
        [(''Content-Type'', ''application/vnd.openxmlformats-officedocument.spreadsheetml.sheet''),
         (''Content-Disposition'', ''attachment; filename='' @ [CHR 0x22] @ ''Budget.xlsx'' @ [CHR 0x22])],
      rbody = Bytes (bytes 3000)\<rparr>"
    unfolding GET_export [OF k1 k2 k3 sheet] googleDocs_cases g ct2
    by (simp add: sheet_export_network_def offline_def answer_def extensionless_names
        flat_dispositions outerCatch_def file_response_def)
qed

text \<open>
  C5. The claim: no attempt raises on a non-success status, and a failed attempt lets the
  chain advance. The export call accepts status 200 only and has no \<open>catch\<close> of its own:
  when the export of a native document is refused with 404, the exception leaves the
  chain and the handler answers 500, although both download addresses would have
  delivered the file.
\<close>

theorem refused_export_is_raised:
  "GET plain_request refused_export_network =
     error_response 500 ''Failed to download file'' (Some (StatusError 404))"
  by (simp add: GET_def plain_request_def refused_export_network_def offline_def answer_def
      document_metadata_def truthy_def downloadChain_def laterStrategies_def outerCatch_def
      probeMetadata_def axios_get_def viewOnlyCondition_def startsWith_def and_then_def
      or_else_def googleDocs_def chooseExportFormat_def)

text \<open>
  C6. The claim: when every strategy fails the outcome is the redirect to the viewer.
  When every address refuses the file with 404, the standard download raises and the
  handler answers 500; the redirect is not reached.
\<close>

theorem all_refused_is_error_500:
  "GET plain_request all_refused_network =
     error_response 500 ''Failed to download file'' (Some (StatusError 404)) \<and>
   GET plain_request all_refused_network \<noteq> viewer_redirect ''abc''"
  by (simp add: GET_def plain_request_def all_refused_network_def offline_def answer_def
      truthy_def downloadChain_def laterStrategies_def outerCatch_def
      probeMetadata_no_metadata axios_get_def viewOnlyCondition_def startsWith_def
      and_then_def standardDownload_def error_response_def viewer_redirect_def)

text \<open>
  In fact no input reaches the redirect: the last download either raises or returns, so
  every response of the handler has status 200, 400 or 500.
\<close>

lemma and_then_Returned:
  "and_then a b = Returned r \<Longrightarrow> a = Returned r \<or> (a = Fallthrough \<and> b = Returned r)"
  by (cases a) (simp_all add: and_then_def)

lemma returnFile_status: "returnFile d ct fn = Returned r \<Longrightarrow> rstatus r = 200"
  by (auto simp: returnFile_def returnResponse_def new_Response_def split: sum.splits)

lemma returnFile_not_Fallthrough: "returnFile d ct fn \<noteq> Fallthrough"
  by (simp add: returnFile_def returnResponse_def split: sum.splits)

lemma viewOnlyPdf_status: "viewOnlyPdf fileName net = Returned r \<Longrightarrow> rstatus r = 200"
  by (auto simp: viewOnlyPdf_def caught_def dest: returnFile_status
      split: sum.splits if_splits flow.splits)

lemma googleDocs_status: "googleDocs fileName mimeType fmt net = Returned r \<Longrightarrow> rstatus r = 200"
  by (auto simp: googleDocs_def Let_def dest: returnFile_status split: sum.splits if_splits)

lemma alternativeDownload_status:
  "alternativeDownload fileName mimeType net = Returned r \<Longrightarrow> rstatus r = 200"
  by (auto simp: alternativeDownload_def Let_def dest: returnFile_status
      split: sum.splits if_splits)

lemma standardDownload_status:
  "standardDownload fileName mimeType net = Returned r \<Longrightarrow> rstatus r = 200"
  by (auto simp: standardDownload_def Let_def
      dest!: and_then_Returned dest: alternativeDownload_status returnFile_status
      split: sum.splits if_splits)

lemma directDownload_status:
  "directDownload fileName mimeType net = Returned r \<Longrightarrow> rstatus r = 200"
  by (auto simp: directDownload_def Let_def dest: returnFile_status split: sum.splits if_splits)

lemma directDownload_not_Fallthrough: "directDownload fileName mimeType net \<noteq> Fallthrough"
  by (auto simp: directDownload_def axios_get_def data_truthy_def Let_def
      returnFile_not_Fallthrough split: upstream.splits sum.splits if_splits)

lemma laterStrategies_status:
  assumes "laterStrategies fid fileName mimeType fmt net = Returned r"
  shows "rstatus r = 200"
  using assms directDownload_not_Fallthrough [of fileName mimeType net]
  by (auto simp: laterStrategies_def dest!: and_then_Returned
      dest: googleDocs_status standardDownload_status directDownload_status
      split: if_splits)

lemma laterStrategies_not_Fallthrough:
  "laterStrategies fid fileName mimeType fmt net \<noteq> Fallthrough"
proof -
  have "and_then a (and_then b (and_then c d)) \<noteq> Fallthrough" if "c \<noteq> Fallthrough" for a b c d
    using that by (cases a; cases b; cases c) (simp_all add: and_then_def)
  then show ?thesis
    unfolding laterStrategies_def using directDownload_not_Fallthrough by blast
qed

lemma downloadChain_status:
  assumes "downloadChain fid req net = Returned r"
  shows "rstatus r = 200"
proof -
  obtain fileName mimeType where pm: "probeMetadata fid net = (fileName, mimeType)"
    by (cases "probeMetadata fid net")
  from assms have
    "and_then
       (if viewOnlyCondition (viewOnly_param req = Some ''true'')
             (forcePdf_param req = Some ''true'') mimeType
        then viewOnlyPdf fileName net else Fallthrough)
       (laterStrategies fid fileName mimeType (format req) net) = Returned r"
    by (simp add: downloadChain_def pm)
  then show ?thesis
    by (auto dest!: and_then_Returned dest: viewOnlyPdf_status laterStrategies_status
        split: if_splits)
qed

lemma downloadChain_not_Fallthrough: "downloadChain fid req net \<noteq> Fallthrough"
proof -
  obtain fileName mimeType where pm: "probeMetadata fid net = (fileName, mimeType)"
    by (cases "probeMetadata fid net")
  have "and_then a b \<noteq> Fallthrough" if "b \<noteq> Fallthrough" for a b
    using that by (cases a) (simp_all add: and_then_def)
  then show ?thesis
    using laterStrategies_not_Fallthrough by (simp add: downloadChain_def pm)
qed

lemma GET_status_range: "rstatus (GET req net) \<in> {200, 400, 500}"
proof (cases "truthy (fileId req)")
  case False
  then show ?thesis by (simp add: GET_def error_response_def)
next
  case True
  show ?thesis
  proof (cases "downloadChain (the (fileId req)) req net")
    case (Returned r)
    then show ?thesis
      using True downloadChain_status [OF Returned] by (simp add: GET_def outerCatch_def)
  next
    case (Thrown e)
    then show ?thesis using True by (simp add: GET_def outerCatch_def error_response_def)
  next
    case Fallthrough
    then show ?thesis using downloadChain_not_Fallthrough by blast
  qed
qed

section \<open>Facts about the file-info route\<close>

lemma exportOptionsFor_invariant:
  "exportOptionsFor m = [] \<or> googleAppsFlag m = Some True"
  by (simp add: exportOptionsFor_def)

text \<open>
  C8, as stated, fails for the degraded record: when the metadata call is refused and the
  view page carries a marker of the PDF viewer, the record has \<open>isGoogleApps = false\<close> and
  \<open>exportOptions = ["pdf"]\<close>.
\<close>

theorem degraded_pdf_breaks_invariant:
  "GET_file_info (Some ''abc'') restricted_pdf_network =
     InfoJson
       \<lparr>info_id = ''abc'', info_name = Some ''Report.pdf'',
        info_mimeType = Some ''application/pdf'', info_size = None, isViewOnly = Some True,
        canDownload = False, isGoogleApps = Some False, exportOptions = [''pdf'']\<rparr> \<and>
   \<not> exportOptionsInvariant
       \<lparr>info_id = ''abc'', info_name = Some ''Report.pdf'',
        info_mimeType = Some ''application/pdf'', info_size = None, isViewOnly = Some True,
        canDownload = False, isGoogleApps = Some False, exportOptions = [''pdf'']\<rparr>"
  by (simp add: GET_file_info_def restricted_pdf_network_def answer_def truthy_def axios_get_def
      fallbackInfo_def scrapeName_def isProbablyPdf_def title_at_def line_terminator_def
      exportOptionsInvariant_def)

text \<open>
  C8, amended. A record built from a metadata reply of status 200 has empty export
  options unless \<open>isGoogleApps\<close> is true. The degraded record, built from the view page
  when the metadata reply has another status, has \<open>isGoogleApps = false\<close>, and its export
  options are \<open>["pdf"]\<close> when the page carries a marker of the PDF viewer (\<open>pdf.js\<close> or
  \<open>PDF viewer\<close>) and empty otherwise.
\<close>

theorem file_info_export_options:
  assumes "GET_file_info fileIdParam net = InfoJson info"
  shows "(\<exists>r. info_call net = Reply r \<and> status r = 200 \<and> exportOptionsInvariant info) \<or>
         (\<exists>r v. info_call net = Reply r \<and> status r \<noteq> 200 \<and> view_page_call net = Reply v \<and>
            isGoogleApps info = Some False \<and>
            exportOptions info = (if isProbablyPdf (data v) then [''pdf''] else []))"
proof (cases "info_call net")
  case (NetworkFailure x)
  with assms show ?thesis
    by (simp add: GET_file_info_def axios_get_def split: if_splits)
next
  case (Reply r)
  show ?thesis
  proof (cases "status r = 200")
    case True
    with assms Reply have "exportOptionsInvariant info"
      using exportOptionsFor_invariant [of "data_mimeType (data r)"]
      by (auto simp: GET_file_info_def axios_get_def exportOptionsInvariant_def Let_def
          split: if_splits)
    with Reply True show ?thesis by simp
  next
    case False
    with assms Reply have fb: "fallbackInfo (the fileIdParam) (status r) net = InfoJson info"
      by (simp add: GET_file_info_def axios_get_def Let_def split: if_splits)
    then obtain v where "view_page_call net = Reply v"
      by (cases "view_page_call net") (simp_all add: fallbackInfo_def axios_get_def)
    with fb Reply False show ?thesis
      by (auto simp: fallbackInfo_def axios_get_def)
  qed
qed

theorem file_info_export_options_witness:
  "GET_file_info (Some ''abc'') public_sheet_network =
     InfoJson
       \<lparr>info_id = ''abc'', info_name = Some ''Budget'',
        info_mimeType = Some ''application/vnd.google-apps.spreadsheet'', info_size = None,
        isViewOnly = None, canDownload = True, isGoogleApps = Some True,
        exportOptions = [''xlsx'', ''csv'', ''pdf'']\<rparr> \<and>
   exportOptionsInvariant
       \<lparr>info_id = ''abc'', info_name = Some ''Budget'',
        info_mimeType = Some ''application/vnd.google-apps.spreadsheet'', info_size = None,
        isViewOnly = None, canDownload = True, isGoogleApps = Some True,
        exportOptions = [''xlsx'', ''csv'', ''pdf'']\<rparr>"
proof -
  have run: "GET_file_info (Some ''abc'') public_sheet_network =
     InfoJson
       \<lparr>info_id = ''abc'', info_name = Some ''Budget'',
        info_mimeType = Some ''application/vnd.google-apps.spreadsheet'', info_size = None,
        isViewOnly = None, canDownload = True, isGoogleApps = Some True,
        exportOptions = [''xlsx'', ''csv'', ''pdf'']\<rparr>"
    by (simp add: GET_file_info_def public_sheet_network_def answer_def truthy_def axios_get_def
        googleAppsFlag_def exportOptionsFor_def startsWith_def)
  from file_info_export_options [OF run] have
    "exportOptionsInvariant
       \<lparr>info_id = ''abc'', info_name = Some ''Budget'',
        info_mimeType = Some ''application/vnd.google-apps.spreadsheet'', info_size = None,
        isViewOnly = None, canDownload = True, isGoogleApps = Some True,
        exportOptions = [''xlsx'', ''csv'', ''pdf'']\<rparr>"
    by (auto simp: public_sheet_network_def answer_def)
  with run show ?thesis by simp
qed

end
